theory Spec2Isabelle
  imports Main "HOL-Library.Sublist"
begin

section \<open>Strings and values\<close>

text \<open>
  A JavaScript string is modelled as a \<open>string\<close>: one \<open>char\<close> per code unit, for
  the code units below 256. \<open>length\<close> is the source's \<open>.length\<close>.
\<close>

definition startsWith :: "string \<Rightarrow> string \<Rightarrow> bool" where
  "startsWith s p = (take (length p) s = p)"

text \<open>\<open>s.substring(n)\<close> for a non-negative \<open>n\<close>.\<close>

definition substringFrom :: "nat \<Rightarrow> string \<Rightarrow> string" where
  "substringFrom n s = drop n s"

text \<open>
  \<open>s.substring(0, m)\<close>: a negative end index is treated as 0, one beyond the
  length as the length.
\<close>

definition substringTo :: "int \<Rightarrow> string \<Rightarrow> string" where
  "substringTo m s = take (nat m) s"

text \<open>
  The white space that \<open>String.prototype.trim\<close> strips, among the code units below
  256: tab, line feed, vertical tab, form feed, carriage return, space and the
  no-break space.
\<close>

definition isWhiteSpace :: "char \<Rightarrow> bool" where
  "isWhiteSpace c = (c \<in> {CHR 0x09, CHR 0x0A, CHR 0x0B, CHR 0x0C, CHR 0x0D, CHR 0x20, CHR 0xA0})"

definition trim :: "string \<Rightarrow> string" where
  "trim s = rev (dropWhile isWhiteSpace (rev (dropWhile isWhiteSpace s)))"

text \<open>
  A parsed JSON value, as a request body or a parsed form field holds it. The
  code modelled here never looks inside a number, so integers stand for them.
\<close>

datatype json =
    JNull
  | JBool bool
  | JNum int
  | JStr string
  | JArr "json list"
  | JObj "(string \<times> json) list"

section \<open>Authentication middleware\<close>

text \<open>
  What a middleware does with a request: it answers with a status and the
  \<open>error\<close> field of the JSON reply, or it calls \<open>next()\<close>.
\<close>

datatype middleware_result = Respond nat string | Next

text \<open>
  \<open>authMiddleware\<close>: \<open>authHeader\<close> is \<open>req.headers.authorization\<close> and
  \<open>expectedToken\<close> is \<open>process.env.AUTH_BEARER_TOKEN\<close>; \<open>None\<close> is \<open>undefined\<close>.
  \<open>!authHeader\<close> holds for \<open>undefined\<close> and for the empty string.
\<close>

definition authMiddleware :: "string option \<Rightarrow> string option \<Rightarrow> middleware_result" where
  "authMiddleware authHeader expectedToken =
     (case authHeader of
        None \<Rightarrow> Respond 401 ''Authentication required''
      | Some h \<Rightarrow>
          if h = [] then Respond 401 ''Authentication required''
          else if \<not> startsWith h ''Bearer '' then Respond 401 ''Invalid authentication format''
          else
            let token = substringFrom 7 h in
            if Some token \<noteq> expectedToken then Respond 401 ''Authentication failed''
            else Next)"

fun status :: "middleware_result \<Rightarrow> nat option" where
  "status (Respond code _) = Some code"
| "status Next = None"

section \<open>Errors and external collaborators\<close>

text \<open>
  A thrown JavaScript error: its \<open>name\<close>, its \<open>message\<close>, the \<open>response\<close> an HTTP
  client error carries (status and status text) and the \<open>code\<close> a system error
  carries. A function that can throw returns \<open>js_error + 'a\<close>, \<open>Inl\<close> the error.
\<close>

datatype js_error =
  JsError (errName: string) (errMessage: string)
          (errResponse: "(nat \<times> string) option") (errCode: "string option")

text \<open>\<open>new Error(message)\<close>.\<close>

definition newError :: "string \<Rightarrow> js_error" where
  "newError msg = JsError ''Error'' msg None None"

text \<open>
  The external text-generation service. The log of the prompts sent so far is
  the state: \<open>model.generateContent(prompt)\<close> followed by \<open>response.text()\<close>
  answers with the text or throws, depending on the prompt and on what was sent
  before, and every invocation appends its prompt to the log.
\<close>

type_synonym service = "string list \<Rightarrow> string \<Rightarrow> js_error + string"

definition generateContent :: "service \<Rightarrow> string \<Rightarrow> string list \<Rightarrow> (js_error + string) \<times> string list" where
  "generateContent svc prompt log = (svc log prompt, log @ [prompt])"

section \<open>Gemini service\<close>

text \<open>
  The template literal of \<open>generateAnswer\<close>: a non-empty \<open>documentContent\<close> is
  truthy and selects the prompt with the document, the empty string the short one.
\<close>

definition prompt :: "string \<Rightarrow> string \<Rightarrow> string" where
  "prompt question documentContent =
     (if documentContent \<noteq> []
      then ''Based on the following document content, answer the question.''
           @ [CHR 0x0A, CHR 0x0A] @ ''Document Content:'' @ [CHR 0x0A] @ documentContent
           @ [CHR 0x0A, CHR 0x0A] @ ''Question: '' @ question
           @ [CHR 0x0A, CHR 0x0A] @ ''Answer:''
      else ''Answer the following question: '' @ question)"

text \<open>
  \<open>generateAnswer\<close>: one call of the service; its text is returned as it is, and a
  failure is thrown again as \<open>Gemini API error: ...\<close>.
\<close>

definition generateAnswer ::
  "service \<Rightarrow> string \<Rightarrow> string \<Rightarrow> string list \<Rightarrow> (js_error + string) \<times> string list" where
  "generateAnswer svc question documentContent log =
     (case generateContent svc (prompt question documentContent) log of
        (Inr txt, log') \<Rightarrow> (Inr txt, log')
      | (Inl error, log') \<Rightarrow> (Inl (newError (''Gemini API error: '' @ errMessage error)), log'))"

text \<open>The fallback answer that the \<open>catch\<close> of \<open>processQuestions\<close> pushes.\<close>

definition fallbackAnswer :: "string \<Rightarrow> string" where
  "fallbackAnswer question = ''Sorry, I couldn't process this question: '' @ question"

text \<open>
  The \<open>for\<close> loop of \<open>processQuestions\<close>, from index \<open>i\<close> with the answers pushed so
  far: both the \<open>try\<close> and the \<open>catch\<close> push exactly one answer.
\<close>

function processQuestions_loop ::
  "service \<Rightarrow> string list \<Rightarrow> string \<Rightarrow> nat \<Rightarrow> string list \<Rightarrow> string list
     \<Rightarrow> string list \<times> string list" where
  "processQuestions_loop svc questions documentContent i answers log =
     (if i < length questions then
        let r = generateAnswer svc (questions ! i) documentContent log;
            answer = (case fst r of Inr a \<Rightarrow> a | Inl error \<Rightarrow> fallbackAnswer (questions ! i))
        in processQuestions_loop svc questions documentContent (Suc i) (answers @ [answer]) (snd r)
      else (answers, log))"
  by pat_completeness auto
termination
  by (relation "measure (\<lambda>(svc, questions, documentContent, i, answers, log). length questions - i)") auto

declare processQuestions_loop.simps [simp del]

definition processQuestions ::
  "service \<Rightarrow> string list \<Rightarrow> string \<Rightarrow> string list \<Rightarrow> string list \<times> string list" where
  "processQuestions svc questions documentContent log =
     processQuestions_loop svc questions documentContent 0 [] log"

text \<open>
  One iteration of that loop as a value: the answer pushed for \<open>question\<close> when the
  service has received \<open>log\<close>. \<open>answersFrom\<close> is the list of these, question by
  question, each call seeing the prompts of the calls before it.
\<close>

definition slot :: "service \<Rightarrow> string \<Rightarrow> string list \<Rightarrow> string \<Rightarrow> string" where
  "slot svc documentContent log question =
     (case fst (generateAnswer svc question documentContent log) of
        Inr a \<Rightarrow> a
      | Inl error \<Rightarrow> fallbackAnswer question)"

fun answersFrom :: "service \<Rightarrow> string \<Rightarrow> string list \<Rightarrow> string list \<Rightarrow> string list" where
  "answersFrom svc documentContent log [] = []"
| "answersFrom svc documentContent log (q # qs) =
     slot svc documentContent log q
       # answersFrom svc documentContent (log @ [prompt q documentContent]) qs"

section \<open>PDF service\<close>

text \<open>What \<open>pdf(buffer)\<close> resolves to; \<open>pdfText\<close> is \<open>data.text\<close>, \<open>None\<close> when absent.\<close>

record pdf_data =
  pdfText :: "string option"
  numpages :: nat

text \<open>
  The collaborators outside the program: the HTTP download, the file system,
  the PDF parser and the text-generation service.
\<close>

record external =
  axiosGet :: "string \<Rightarrow> js_error + string"
  pathExists :: "string \<Rightarrow> bool"
  readFile :: "string \<Rightarrow> js_error + string"
  pdfParse :: "string \<Rightarrow> js_error + pdf_data"
  gemini :: service

text \<open>The error of reading \<open>text.length\<close> for the log line when \<open>text\<close> is absent.\<close>

definition lengthOfUndefined :: js_error where
  "lengthOfUndefined =
     JsError ''TypeError'' ''Cannot read properties of undefined (reading 'length')'' None None"

text \<open>A number in a template literal: its decimal digits.\<close>

fun decimal :: "nat \<Rightarrow> string" where
  "decimal n =
     (if n < 10 then [char_of (48 + n)]
      else decimal (n div 10) @ [char_of (48 + n mod 10)])"

text \<open>The \<open>try\<close> block of \<open>extractTextFromUrl\<close>.\<close>

definition extractTextFromUrl_try :: "external \<Rightarrow> string \<Rightarrow> js_error + string" where
  "extractTextFromUrl_try ext pdfUrl =
     (case axiosGet ext pdfUrl of
        Inl error \<Rightarrow> Inl error
      | Inr pdfBuffer \<Rightarrow>
          (case pdfParse ext pdfBuffer of
             Inl error \<Rightarrow> Inl error
           | Inr d \<Rightarrow>
               (case pdfText d of
                  None \<Rightarrow> Inl lengthOfUndefined
                | Some t \<Rightarrow>
                    if t = [] \<or> length (trim t) = 0
                    then Inl (newError ''PDF contains no extractable text'')
                    else Inr t)))"

text \<open>\<open>extractTextFromUrl\<close>: the \<open>catch\<close> block rewrites every error of the \<open>try\<close>.\<close>

definition extractTextFromUrl :: "external \<Rightarrow> string \<Rightarrow> js_error + string" where
  "extractTextFromUrl ext pdfUrl =
     (case extractTextFromUrl_try ext pdfUrl of
        Inr t \<Rightarrow> Inr t
      | Inl error \<Rightarrow>
          (case errResponse error of
             Some (st, statusText) \<Rightarrow>
               Inl (newError (''Failed to download PDF: '' @ decimal st @ '' '' @ statusText))
           | None \<Rightarrow>
               if errCode error = Some ''ENOTFOUND''
               then Inl (newError ''PDF document not found at the provided URL'')
               else if errCode error = Some ''ETIMEDOUT''
               then Inl (newError ''Timeout while downloading PDF document'')
               else Inl (newError (''PDF processing failed: '' @ errMessage error))))"

text \<open>The \<open>try\<close> block of \<open>extractTextFromFile\<close>.\<close>

definition extractTextFromFile_try :: "external \<Rightarrow> string \<Rightarrow> js_error + string" where
  "extractTextFromFile_try ext filePath =
     (if \<not> pathExists ext filePath then Inl (newError ''PDF file not found'')
      else
        (case readFile ext filePath of
           Inl error \<Rightarrow> Inl error
         | Inr pdfBuffer \<Rightarrow>
             (case pdfParse ext pdfBuffer of
                Inl error \<Rightarrow> Inl error
              | Inr d \<Rightarrow>
                  (case pdfText d of
                     None \<Rightarrow> Inl lengthOfUndefined
                   | Some t \<Rightarrow>
                       if t = [] \<or> length (trim t) = 0
                       then Inl (newError ''PDF contains no extractable text'')
                       else Inr t))))"

definition extractTextFromFile :: "external \<Rightarrow> string \<Rightarrow> js_error + string" where
  "extractTextFromFile ext filePath =
     (case extractTextFromFile_try ext filePath of
        Inr t \<Rightarrow> Inr t
      | Inl error \<Rightarrow> Inl (newError (''PDF file processing failed: '' @ errMessage error)))"

text \<open>The parsed text is absent or has nothing but white space.\<close>

definition blankText :: "string option \<Rightarrow> bool" where
  "blankText t = (case t of None \<Rightarrow> True | Some s \<Rightarrow> trim s = [])"

section \<open>RAG service\<close>

definition documentProcessingError :: "string \<Rightarrow> js_error" where
  "documentProcessingError msg = JsError ''DocumentProcessingError'' msg None None"

text \<open>
  \<open>processDocumentAndQuestions\<close>: the inner \<open>try\<close> keeps \<open>documentContent = ''\<close> when
  the extraction throws. \<open>processQuestions\<close> does not throw, so the outer \<open>catch\<close>
  has nothing to catch.
\<close>

definition processDocumentAndQuestions ::
  "external \<Rightarrow> string \<Rightarrow> string list \<Rightarrow> string list \<Rightarrow> (js_error + string list) \<times> string list" where
  "processDocumentAndQuestions ext documentUrl questions log =
     (let documentContent =
            (case extractTextFromUrl ext documentUrl of
               Inr t \<Rightarrow> t
             | Inl pdfError \<Rightarrow> []);
          r = processQuestions (gemini ext) questions documentContent log
      in (Inr (fst r), snd r))"

text \<open>
  \<open>processFileAndQuestions\<close>: the extraction is awaited directly inside the outer
  \<open>try\<close>, whose \<open>catch\<close> throws the \<open>DocumentProcessingError\<close>.
\<close>

definition processFileAndQuestions ::
  "external \<Rightarrow> string \<Rightarrow> string list \<Rightarrow> string list \<Rightarrow> (js_error + string list) \<times> string list" where
  "processFileAndQuestions ext filePath questions log =
     (case extractTextFromFile ext filePath of
        Inl error \<Rightarrow> (Inl (documentProcessingError ''Failed to process file and questions''), log)
      | Inr documentContent \<Rightarrow>
          (let r = processQuestions (gemini ext) questions documentContent log
           in (Inr (fst r), snd r)))"

section \<open>Request validator\<close>

text \<open>
  The schemas are written with the Joi combinators; the validation library is
  not part of the repository. Each combinator the schemas use is given here the
  meaning the library documents for it, and the schema is its composition, with
  the options \<open>validateRequest\<close> passes: \<open>abortEarly: false\<close> (every violation is
  reported) and \<open>allowUnknown: false\<close> (a key the schema does not name is a
  violation). A violation is the path of the offending value, which
  \<open>validateRequest\<close> joins with dots into \<open>field\<close>, and the code of the broken rule,
  which selects the message.
\<close>

datatype seg = Key string | Index nat

datatype joi_code =
    ObjectBase | ObjectUnknown | AnyRequired
  | StringBase | StringEmpty | StringUri | StringMin | StringMax
  | ArrayBase | ArrayIncludesRequiredUnknowns | ArrayMin | ArrayMax

type_synonym detail = "seg list \<times> joi_code"

text \<open>
  The item schema \<open>Joi.string().min(5).max(1000).required()\<close>: the value is a
  string, not the empty one, and its length (no \<open>trim()\<close> is asked for) is
  within the bounds.
\<close>

fun questionItem :: "seg list \<Rightarrow> json \<Rightarrow> detail list" where
  "questionItem path (JStr s) =
     (if s = [] then [(path, StringEmpty)]
      else (if length s < 5 then [(path, StringMin)] else [])
         @ (if length s > 1000 then [(path, StringMax)] else []))"
| "questionItem path v = [(path, StringBase)]"

text \<open>
  The key \<open>documents\<close>: \<open>Joi.string().uri({scheme: ['http', 'https'],
  allowRelative: false}).required()\<close>. The library's URI rule is the parameter
  \<open>uri\<close>; \<open>None\<close> is a missing key.
\<close>

fun documentsKey :: "(string \<Rightarrow> bool) \<Rightarrow> json option \<Rightarrow> detail list" where
  "documentsKey uri None = [([Key ''documents''], AnyRequired)]"
| "documentsKey uri (Some (JStr s)) =
     (if s = [] then [([Key ''documents''], StringEmpty)]
      else if \<not> uri s then [([Key ''documents''], StringUri)]
      else [])"
| "documentsKey uri (Some v) = [([Key ''documents''], StringBase)]"

text \<open>
  The key \<open>questions\<close>: \<open>Joi.array().items(item).min(1).max(10).required()\<close>. Every
  element is checked against the item schema; the item schema is required, so
  at least one element has to match it; then the two bounds on the length.
\<close>

fun questionsKey :: "json option \<Rightarrow> detail list" where
  "questionsKey None = [([Key ''questions''], AnyRequired)]"
| "questionsKey (Some (JArr qs)) =
     concat (map (\<lambda>(i, q). questionItem [Key ''questions'', Index i] q) (zip [0..<length qs] qs))
     @ (if \<not> list_ex (\<lambda>q. questionItem [] q = []) qs
        then [([Key ''questions''], ArrayIncludesRequiredUnknowns)] else [])
     @ (if length qs < 1 then [([Key ''questions''], ArrayMin)] else [])
     @ (if length qs > 10 then [([Key ''questions''], ArrayMax)] else [])"
| "questionsKey (Some v) = [([Key ''questions''], ArrayBase)]"

text \<open>
  \<open>runRequestSchema.validate(requestBody, ...)\<close>: the details of the error, empty
  when there is none. The keys of a parsed object are distinct.
\<close>

fun runRequestSchema :: "(string \<Rightarrow> bool) \<Rightarrow> json \<Rightarrow> detail list" where
  "runRequestSchema uri (JObj kvs) =
     documentsKey uri (map_of kvs ''documents'')
     @ questionsKey (map_of kvs ''questions'')
     @ map (\<lambda>(k, v). ([Key k], ObjectUnknown))
           (filter (\<lambda>(k, v). k \<noteq> ''documents'' \<and> k \<noteq> ''questions'') kvs)"
| "runRequestSchema uri v = [([], ObjectBase)]"

record validation_result =
  isValid :: bool
  errors :: "detail list option"
  validated :: "json option"

text \<open>\<open>validateRequest\<close>; \<open>validated\<close> is the field \<open>value\<close> of the result.\<close>

definition validateRequest :: "(string \<Rightarrow> bool) \<Rightarrow> json \<Rightarrow> validation_result" where
  "validateRequest uri requestBody =
     (let details = runRequestSchema uri requestBody in
      if details \<noteq> []
      then \<lparr>isValid = False, errors = Some details, validated = None\<rparr>
      else \<lparr>isValid = True, errors = None, validated = Some requestBody\<rparr>)"

text \<open>
  The custom rule of \<open>uploadRequestSchema\<close> on the field \<open>questions\<close>, applied to
  what \<open>JSON.parse\<close> gave (\<open>None\<close> when it threw): the \<open>for\<close> loop over the parsed
  array returns at the first offending element.
\<close>

datatype upload_code =
  InvalidJSON | InvalidFormat | Empty | TooMany | InvalidType | TooShort | TooLong

fun uploadQuestions_loop :: "json list \<Rightarrow> upload_code option" where
  "uploadQuestions_loop [] = None"
| "uploadQuestions_loop (JStr s # qs) =
     (if length s < 5 then Some TooShort
      else if length s > 1000 then Some TooLong
      else uploadQuestions_loop qs)"
| "uploadQuestions_loop (q # qs) = Some InvalidType"

fun uploadQuestions :: "json option \<Rightarrow> upload_code + json list" where
  "uploadQuestions None = Inl InvalidJSON"
| "uploadQuestions (Some (JArr parsed)) =
     (if length parsed = 0 then Inl Empty
      else if length parsed > 10 then Inl TooMany
      else (case uploadQuestions_loop parsed of
              Some c \<Rightarrow> Inl c
            | None \<Rightarrow> Inr parsed))"
| "uploadQuestions (Some v) = Inl InvalidFormat"

text \<open>\<open>sanitizeString\<close> and its options; a missing option is \<open>None\<close> or \<open>False\<close>.\<close>

record sanitize_options =
  maxLength :: "int option"
  allowControlChars :: bool

text \<open>The control characters of the last \<open>replace\<close>: codes 0 to 8, 11, 12, 14 to 31 and 127.\<close>

definition isControlChar :: "char \<Rightarrow> bool" where
  "isControlChar c =
     (let n = (of_char c :: nat)
      in n \<le> 8 \<or> n = 11 \<or> n = 12 \<or> (14 \<le> n \<and> n \<le> 31) \<or> n = 127)"

definition sanitizeString :: "json \<Rightarrow> sanitize_options \<Rightarrow> string" where
  "sanitizeString input options =
     (case input of
        JStr s \<Rightarrow>
          (let sanitized = trim s;
               sanitized = filter (\<lambda>c. c \<noteq> CHR 0x00) sanitized;
               maxLen = (case maxLength options of
                           None \<Rightarrow> 1000
                         | Some m \<Rightarrow> if m = 0 then 1000 else m);
               sanitized = (if int (length sanitized) > maxLen
                            then substringTo maxLen sanitized else sanitized);
               sanitized = (if \<not> allowControlChars options
                            then filter (\<lambda>c. \<not> isControlChar c) sanitized else sanitized)
           in sanitized)
      | _ \<Rightarrow> [])"

section \<open>Upload route\<close>

text \<open>
  The checks of the \<open>POST /hackrx/upload\<close> handler before it calls
  \<open>ragService.processFileAndQuestions\<close>: \<open>file\<close> is the path of \<open>req.file\<close>, \<open>None\<close>
  when nothing was uploaded, and \<open>parsed\<close> is the outcome of
  \<open>JSON.parse(questions)\<close>, \<open>None\<close> when it throws. The handler either answers with
  a status and an \<open>error\<close> field or goes on to the pipeline with the parsed array.
\<close>

datatype upload_decision = Reject nat string | Process string "json list"

fun uploadHandler :: "string option \<Rightarrow> json option \<Rightarrow> upload_decision" where
  "uploadHandler None parsed = Reject 400 ''No file provided''"
| "uploadHandler (Some filePath) None = Reject 400 ''Invalid questions format''"
| "uploadHandler (Some filePath) (Some (JArr parsedQuestions)) =
     (if length parsedQuestions = 0 then Reject 400 ''Validation Error''
      else Process filePath parsedQuestions)"
| "uploadHandler (Some filePath) (Some v) = Reject 400 ''Validation Error''"

section \<open>The accepted request bodies\<close>

text \<open>
  What \<open>runRequestSchema\<close> accepts, said directly: an object with no key besides
  \<open>documents\<close> and \<open>questions\<close>, whose \<open>documents\<close> is a non-empty string passing
  the URI rule and whose \<open>questions\<close> is an array of 1 to 10 strings, each of
  length 5 to 1000.
\<close>

fun isQuestion :: "json \<Rightarrow> bool" where
  "isQuestion (JStr s) = (5 \<le> length s \<and> length s \<le> 1000)"
| "isQuestion v = False"

fun acceptedDocuments :: "(string \<Rightarrow> bool) \<Rightarrow> json option \<Rightarrow> bool" where
  "acceptedDocuments uri (Some (JStr d)) = (d \<noteq> [] \<and> uri d)"
| "acceptedDocuments uri v = False"

fun acceptedQuestions :: "json option \<Rightarrow> bool" where
  "acceptedQuestions (Some (JArr qs)) =
     (1 \<le> length qs \<and> length qs \<le> 10 \<and> list_all isQuestion qs)"
| "acceptedQuestions v = False"

fun acceptedBody :: "(string \<Rightarrow> bool) \<Rightarrow> json \<Rightarrow> bool" where
  "acceptedBody uri (JObj kvs) =
     (list_all (\<lambda>(k, v). k = ''documents'' \<or> k = ''questions'') kvs
      \<and> acceptedDocuments uri (map_of kvs ''documents'')
      \<and> acceptedQuestions (map_of kvs ''questions''))"
| "acceptedBody uri v = False"

text \<open>
  The specification's wording of the same rule, for comparison: \<open>documents\<close> is a
  string that is an absolute http/https URL and \<open>questions\<close> is an array of 1 to
  10 strings, each of trimmed length 5 to 1000.
\<close>

fun specQuestion :: "json \<Rightarrow> bool" where
  "specQuestion (JStr s) = (5 \<le> length (trim s) \<and> length (trim s) \<le> 1000)"
| "specQuestion v = False"

fun specDocuments :: "(string \<Rightarrow> bool) \<Rightarrow> json option \<Rightarrow> bool" where
  "specDocuments uri (Some (JStr d)) = uri d"
| "specDocuments uri v = False"

fun specQuestions :: "json option \<Rightarrow> bool" where
  "specQuestions (Some (JArr qs)) =
     (1 \<le> length qs \<and> length qs \<le> 10 \<and> list_all specQuestion qs)"
| "specQuestions v = False"

fun specValid :: "(string \<Rightarrow> bool) \<Rightarrow> json \<Rightarrow> bool" where
  "specValid uri (JObj kvs) =
     (specDocuments uri (map_of kvs ''documents'') \<and> specQuestions (map_of kvs ''questions''))"
| "specValid uri v = False"

section \<open>Concrete inputs\<close>

text \<open>
  An instance of the URI rule for evaluating the validator at concrete bodies:
  it looks at the scheme prefix only. On the URL used below it agrees with the
  library's rule.
\<close>

definition httpScheme :: "string \<Rightarrow> bool" where
  "httpScheme s = (startsWith s ''http://'' \<or> startsWith s ''https://'')"

text \<open>A service whose second call fails and whose other calls answer.\<close>

definition secondCallFails :: service where
  "secondCallFails log p =
     (if length log = 1 then Inl (newError ''quota exceeded'') else Inr (''Re: '' @ p))"

text \<open>
  Three worlds: one where the document is there and has text, one where it
  parses to white space only, one where neither the URL nor the file exists.
\<close>

definition textWorld :: external where
  "textWorld =
     \<lparr>axiosGet = (\<lambda>u. Inr ''%PDF''), pathExists = (\<lambda>p. True), readFile = (\<lambda>p. Inr ''%PDF''),
      pdfParse = (\<lambda>b. Inr \<lparr>pdfText = Some ''Notice: 30 days'', numpages = 1\<rparr>),
      gemini = secondCallFails\<rparr>"

definition blankWorld :: external where
  "blankWorld =
     \<lparr>axiosGet = (\<lambda>u. Inr ''%PDF''), pathExists = (\<lambda>p. True), readFile = (\<lambda>p. Inr ''%PDF''),
      pdfParse = (\<lambda>b. Inr \<lparr>pdfText = Some [CHR 0x20, CHR 0x0A], numpages = 1\<rparr>),
      gemini = secondCallFails\<rparr>"

definition deadWorld :: external where
  "deadWorld =
     \<lparr>axiosGet = (\<lambda>u. Inl (JsError ''Error'' ''getaddrinfo ENOTFOUND'' None (Some ''ENOTFOUND''))),
      pathExists = (\<lambda>p. False),
      readFile = (\<lambda>p. Inl (JsError ''Error'' ''no such file or directory'' None (Some ''ENOENT''))),
      pdfParse = (\<lambda>b. Inl (newError ''Invalid PDF structure'')),
      gemini = secondCallFails\<rparr>"

section \<open>Properties of the authentication middleware\<close>

lemma startsWith_append: "startsWith (p @ s) p"
  by (simp add: startsWith_def)

lemma startsWith_split: "startsWith s p \<Longrightarrow> s = p @ drop (length p) s"
  by (metis append_take_drop_id startsWith_def)

text \<open>
  C10. With no secret configured (\<open>expectedToken\<close> undefined) every request is
  answered 401, whatever its Authorization header; none is passed on.
\<close>

theorem authMiddleware_unconfigured_401:
  "status (authMiddleware authHeader None) = Some 401"
  by (simp add: authMiddleware_def Let_def split: option.split)

text \<open>
  C7. The middleware calls \<open>next()\<close> exactly when the header is \<open>Bearer \<close> followed
  by the configured secret; in every other case (no header, another prefix,
  another token) it answers 401 and does not call \<open>next()\<close>.
\<close>

theorem authMiddleware_boundary:
  "(authMiddleware authHeader expectedToken = Next) =
     (\<exists>token. authHeader = Some (''Bearer '' @ token) \<and> expectedToken = Some token)
   \<and> (authMiddleware authHeader expectedToken \<noteq> Next \<longrightarrow>
        status (authMiddleware authHeader expectedToken) = Some 401)"
proof (cases authHeader)
  case None
  then show ?thesis by (simp add: authMiddleware_def)
next
  case (Some h)
  show ?thesis
  proof (cases "startsWith h ''Bearer ''")
    case True
    have len: "length ''Bearer '' = 7" by simp
    have h: "h = ''Bearer '' @ drop 7 h"
      using startsWith_split[OF True] by (simp only: len)
    have ne: "h \<noteq> []" by (subst h) simp
    have "(\<exists>token. h = ''Bearer '' @ token \<and> expectedToken = Some token)
            = (expectedToken = Some (drop 7 h))"
      using h by (metis same_append_eq)
    with Some True ne show ?thesis
      by (auto simp add: authMiddleware_def Let_def substringFrom_def)
  next
    case False
    then have "\<And>token. h \<noteq> ''Bearer '' @ token"
      using startsWith_append by blast
    with Some False show ?thesis
      by (simp add: authMiddleware_def Let_def)
  qed
qed

theorem authMiddleware_boundary_witness:
  "authMiddleware (Some ''Basic abc'') (Some ''s3cret'') \<noteq> Next
   \<and> status (authMiddleware (Some ''Basic abc'') (Some ''s3cret'')) = Some 401
   \<and> authMiddleware (Some ''Bearer s3cret'') (Some ''s3cret'') = Next"
  using authMiddleware_boundary[of "Some ''Basic abc''" "Some ''s3cret''"]
        authMiddleware_boundary[of "Some ''Bearer s3cret''" "Some ''s3cret''"]
  by (simp add: authMiddleware_def startsWith_def substringFrom_def)

section \<open>Properties of the Gemini service\<close>

lemma sublist_mid: "sublist x (a @ x @ b)"
  by (rule sublist_appendI)

lemma sublist_end: "sublist x (a @ x)"
  using sublist_appendI[of x a "[]"] by simp

lemma prompt_embeds_question: "sublist q (prompt q c)"
proof (cases "c = []")
  case True
  then have "prompt q c = ''Answer the following question: '' @ q"
    by (simp only: prompt_def simp_thms if_False)
  then show ?thesis by (simp only: sublist_end)
next
  case False
  have "prompt q c = (''Based on the following document content, answer the question.''
           @ [CHR 0x0A, CHR 0x0A] @ ''Document Content:'' @ [CHR 0x0A] @ c
           @ [CHR 0x0A, CHR 0x0A] @ ''Question: '') @ q
           @ ([CHR 0x0A, CHR 0x0A] @ ''Answer:'')"
    by (simp only: prompt_def if_P[OF False] append_assoc)
  then show ?thesis by (simp only: sublist_mid)
qed

lemma prompt_embeds_context: "sublist c (prompt q c)"
proof (cases "c = []")
  case True
  then show ?thesis by (simp only: sublist_Nil_left)
next
  case False
  have "prompt q c = (''Based on the following document content, answer the question.''
           @ [CHR 0x0A, CHR 0x0A] @ ''Document Content:'' @ [CHR 0x0A]) @ c
           @ ([CHR 0x0A, CHR 0x0A] @ ''Question: '' @ q
           @ [CHR 0x0A, CHR 0x0A] @ ''Answer:'')"
    by (simp only: prompt_def if_P[OF False] append_assoc)
  then show ?thesis by (simp only: sublist_mid)
qed

lemma generateAnswer_log: "snd (generateAnswer svc q c log) = log @ [prompt q c]"
  by (simp add: generateAnswer_def generateContent_def split: sum.split)

lemma generateAnswer_result:
  "fst (generateAnswer svc q c log) =
     (case svc log (prompt q c) of
        Inr t \<Rightarrow> Inr t
      | Inl e \<Rightarrow> Inl (newError (''Gemini API error: '' @ errMessage e)))"
  by (simp add: generateAnswer_def generateContent_def split: sum.split)

lemma loop_eq:
  "i \<le> length qs \<Longrightarrow> processQuestions_loop svc qs c i acc log =
     (acc @ answersFrom svc c log (drop i qs), log @ map (\<lambda>q. prompt q c) (drop i qs))"
proof (induction svc qs c i acc log rule: processQuestions_loop.induct)
  case (1 svc questions documentContent i answers log)
  show ?case
  proof (cases "i < length questions")
    case True
    then have d: "drop i questions = questions ! i # drop (Suc i) questions"
      by (simp add: Cons_nth_drop_Suc)
    from True "1.IH"[OF True refl refl] show ?thesis
      by (subst processQuestions_loop.simps) (simp add: d Let_def slot_def generateAnswer_log)
  next
    case False
    with "1.prems" show ?thesis by (subst processQuestions_loop.simps) simp
  qed
qed

lemma processQuestions_eq:
  "processQuestions svc qs c log = (answersFrom svc c log qs, log @ map (\<lambda>q. prompt q c) qs)"
  unfolding processQuestions_def by (subst loop_eq) simp_all

lemma length_answersFrom: "length (answersFrom svc c log qs) = length qs"
  by (induction qs arbitrary: log) auto

lemma nth_answersFrom:
  "i < length qs \<Longrightarrow>
   answersFrom svc c log qs ! i = slot svc c (log @ map (\<lambda>q. prompt q c) (take i qs)) (qs ! i)"
proof (induction qs arbitrary: log i)
  case Nil then show ?case by simp
next
  case (Cons q qs)
  show ?case
  proof (cases i)
    case 0 then show ?thesis by simp
  next
    case (Suc j)
    with Cons.prems have "j < length qs" by simp
    from Cons.IH[OF this] Suc show ?thesis by simp
  qed
qed

text \<open>
  C1. \<open>processQuestions\<close> returns as many answers as there are questions: the
  service is called once per question, in the order of the questions, and the
  answer at index \<open>i\<close> is the one the loop body gives for the question at index
  \<open>i\<close>, the service having seen the prompts of the questions before it; whether
  a call fails changes the content of its slot only.
\<close>

theorem processQuestions_aligned:
  "length (fst (processQuestions svc questions documentContent log)) = length questions
   \<and> snd (processQuestions svc questions documentContent log)
       = log @ map (\<lambda>q. prompt q documentContent) questions
   \<and> (\<forall>i < length questions.
         fst (processQuestions svc questions documentContent log) ! i
           = slot svc documentContent
               (log @ map (\<lambda>q. prompt q documentContent) (take i questions)) (questions ! i))"
  by (simp add: processQuestions_eq length_answersFrom nth_answersFrom)

theorem processQuestions_aligned_witness:
  "(1::nat) < length [''What is X?'', ''What is Y?'', ''What is Z?'']
   \<and> length (fst (processQuestions secondCallFails [''What is X?'', ''What is Y?'', ''What is Z?''] [] [])) = 3
   \<and> fst (processQuestions secondCallFails [''What is X?'', ''What is Y?'', ''What is Z?''] [] []) ! 1
       = fallbackAnswer ''What is Y?''"
  using processQuestions_aligned[of secondCallFails "[''What is X?'', ''What is Y?'', ''What is Z?'']" "[]" "[]"]
  by (simp add: slot_def generateAnswer_result secondCallFails_def)

text \<open>
  C2. \<open>processQuestions\<close> returns a list, never an error. If the call of
  \<open>generateAnswer\<close> for the question at index \<open>i\<close> throws, slot \<open>i\<close> is the fixed
  text followed by that question; if it returns an answer, slot \<open>i\<close> is that
  answer.
\<close>

theorem processQuestions_isolates_failure:
  "i < length questions \<Longrightarrow>
   (case fst (generateAnswer svc (questions ! i) documentContent
                (log @ map (\<lambda>q. prompt q documentContent) (take i questions))) of
      Inl error \<Rightarrow>
        fst (processQuestions svc questions documentContent log) ! i
          = ''Sorry, I couldn't process this question: '' @ questions ! i
    | Inr answer \<Rightarrow>
        fst (processQuestions svc questions documentContent log) ! i = answer)"
  by (simp add: processQuestions_eq nth_answersFrom slot_def fallbackAnswer_def split: sum.split)

theorem processQuestions_isolates_failure_witness:
  "(1::nat) < length [''What is X?'', ''What is Y?'', ''What is Z?'']
   \<and> fst (processQuestions secondCallFails [''What is X?'', ''What is Y?'', ''What is Z?''] [] []) ! 0
       = ''Re: Answer the following question: What is X?''
   \<and> fst (processQuestions secondCallFails [''What is X?'', ''What is Y?'', ''What is Z?''] [] []) ! 1
       = ''Sorry, I couldn't process this question: What is Y?''
   \<and> fst (processQuestions secondCallFails [''What is X?'', ''What is Y?'', ''What is Z?''] [] []) ! 2
       = ''Re: Answer the following question: What is Z?''"
  using processQuestions_isolates_failure[of 0 "[''What is X?'', ''What is Y?'', ''What is Z?'']" secondCallFails "[]" "[]"]
        processQuestions_isolates_failure[of 1 "[''What is X?'', ''What is Y?'', ''What is Z?'']" secondCallFails "[]" "[]"]
        processQuestions_isolates_failure[of 2 "[''What is X?'', ''What is Y?'', ''What is Z?'']" secondCallFails "[]" "[]"]
  by (simp add: generateAnswer_result secondCallFails_def prompt_def)

text \<open>
  C8. \<open>generateAnswer\<close> sends the service exactly one prompt, which contains the
  document content and the question, and when the service answers with a text
  it returns that text unchanged.
\<close>

theorem generateAnswer_once_verbatim:
  "snd (generateAnswer svc question documentContent log) = log @ [prompt question documentContent]
   \<and> sublist documentContent (prompt question documentContent)
   \<and> sublist question (prompt question documentContent)
   \<and> (\<forall>txt. svc log (prompt question documentContent) = Inr txt \<longrightarrow>
         fst (generateAnswer svc question documentContent log) = Inr txt)"
  by (simp add: generateAnswer_log generateAnswer_result prompt_embeds_question prompt_embeds_context)

theorem generateAnswer_once_verbatim_witness:
  "secondCallFails [] (prompt ''What is X?'' ''Notice: 30 days'')
     = Inr (''Re: '' @ prompt ''What is X?'' ''Notice: 30 days'')
   \<and> generateAnswer secondCallFails ''What is X?'' ''Notice: 30 days'' []
     = (Inr (''Re: '' @ prompt ''What is X?'' ''Notice: 30 days''), [prompt ''What is X?'' ''Notice: 30 days''])"
  using generateAnswer_once_verbatim[of secondCallFails "''What is X?''" "''Notice: 30 days''" "[]"]
  by (simp add: secondCallFails_def prod_eq_iff)
section \<open>Properties of the PDF service\<close>

lemma extractTextFromUrl_try_Inr:
  "extractTextFromUrl_try ext u = Inr t \<Longrightarrow> trim t \<noteq> []"
  by (auto simp add: extractTextFromUrl_try_def split: sum.splits option.splits if_splits)

lemma extractTextFromFile_try_Inr:
  "extractTextFromFile_try ext p = Inr t \<Longrightarrow> trim t \<noteq> []"
  by (auto simp add: extractTextFromFile_try_def split: sum.splits option.splits if_splits)

lemma extractTextFromUrl_Inr:
  "extractTextFromUrl ext u = Inr t \<Longrightarrow> extractTextFromUrl_try ext u = Inr t"
  by (auto simp add: extractTextFromUrl_def split: sum.splits option.splits if_splits prod.splits)

lemma extractTextFromFile_Inr:
  "extractTextFromFile ext p = Inr t \<Longrightarrow> extractTextFromFile_try ext p = Inr t"
  by (auto simp add: extractTextFromFile_def split: sum.splits)

lemma extractTextFromUrl_blank:
  "axiosGet ext u = Inr b \<Longrightarrow> pdfParse ext b = Inr d \<Longrightarrow> blankText (pdfText d) \<Longrightarrow>
   \<exists>e. extractTextFromUrl_try ext u = Inl e"
  by (auto simp add: extractTextFromUrl_try_def blankText_def split: option.splits)

lemma extractTextFromFile_blank:
  "pathExists ext p \<Longrightarrow> readFile ext p = Inr b \<Longrightarrow> pdfParse ext b = Inr d \<Longrightarrow> blankText (pdfText d) \<Longrightarrow>
   \<exists>e. extractTextFromFile_try ext p = Inl e"
  by (auto simp add: extractTextFromFile_try_def blankText_def split: option.splits)

lemma extractTextFromUrl_total:
  "(\<exists>e. extractTextFromUrl_try ext u = Inl e) \<Longrightarrow> (\<exists>e. extractTextFromUrl ext u = Inl e)"
  by (auto simp add: extractTextFromUrl_def split: option.splits prod.splits)

lemma extractTextFromFile_total:
  "(\<exists>e. extractTextFromFile_try ext u = Inl e) \<Longrightarrow> (\<exists>e. extractTextFromFile ext u = Inl e)"
  by (auto simp add: extractTextFromFile_def)

text \<open>
  C6. Neither \<open>extractTextFromUrl\<close> nor \<open>extractTextFromFile\<close> returns a text that
  is empty after trimming, and both throw when the document was obtained and
  parsed but its text is absent or only white space.
\<close>

theorem extraction_never_blank:
  "(extractTextFromUrl ext url = Inr t \<longrightarrow> trim t \<noteq> [])
   \<and> (extractTextFromFile ext path = Inr t \<longrightarrow> trim t \<noteq> [])
   \<and> (axiosGet ext url = Inr b \<and> pdfParse ext b = Inr d \<and> blankText (pdfText d)
        \<longrightarrow> (\<exists>e. extractTextFromUrl ext url = Inl e))
   \<and> (pathExists ext path \<and> readFile ext path = Inr b \<and> pdfParse ext b = Inr d \<and> blankText (pdfText d)
        \<longrightarrow> (\<exists>e. extractTextFromFile ext path = Inl e))"
proof (intro conjI impI)
  assume "extractTextFromUrl ext url = Inr t"
  then show "trim t \<noteq> []"
    by (rule extractTextFromUrl_try_Inr[OF extractTextFromUrl_Inr])
next
  assume "extractTextFromFile ext path = Inr t"
  then show "trim t \<noteq> []"
    by (rule extractTextFromFile_try_Inr[OF extractTextFromFile_Inr])
next
  assume "axiosGet ext url = Inr b \<and> pdfParse ext b = Inr d \<and> blankText (pdfText d)"
  then have "\<exists>e. extractTextFromUrl_try ext url = Inl e"
    using extractTextFromUrl_blank by blast
  then show "\<exists>e. extractTextFromUrl ext url = Inl e"
    by (rule extractTextFromUrl_total)
next
  assume "pathExists ext path \<and> readFile ext path = Inr b \<and> pdfParse ext b = Inr d
            \<and> blankText (pdfText d)"
  then have "\<exists>e. extractTextFromFile_try ext path = Inl e"
    using extractTextFromFile_blank by blast
  then show "\<exists>e. extractTextFromFile ext path = Inl e"
    by (rule extractTextFromFile_total)
qed


lemma trim_ex: "trim ''Notice: 30 days'' = ''Notice: 30 days''"
  by (simp add: trim_def isWhiteSpace_def)
lemma trim_blank: "trim [CHR 0x20, CHR 0x0A] = []"
  by (simp add: trim_def isWhiteSpace_def)

theorem extraction_never_blank_witness:
  "extractTextFromUrl textWorld ''https://example.com/policy.pdf'' = Inr ''Notice: 30 days''
   \<and> extractTextFromFile textWorld ''uploads/policy.pdf'' = Inr ''Notice: 30 days''
   \<and> trim ''Notice: 30 days'' \<noteq> []
   \<and> axiosGet blankWorld ''https://example.com/policy.pdf'' = Inr ''%PDF''
   \<and> pathExists blankWorld ''uploads/policy.pdf''
   \<and> readFile blankWorld ''uploads/policy.pdf'' = Inr ''%PDF''
   \<and> pdfParse blankWorld ''%PDF'' = Inr \<lparr>pdfText = Some [CHR 0x20, CHR 0x0A], numpages = 1\<rparr>
   \<and> blankText (Some [CHR 0x20, CHR 0x0A])
   \<and> (\<exists>e. extractTextFromUrl blankWorld ''https://example.com/policy.pdf'' = Inl e)
   \<and> (\<exists>e. extractTextFromFile blankWorld ''uploads/policy.pdf'' = Inl e)"
  using extraction_never_blank[of textWorld "''https://example.com/policy.pdf''" "''Notice: 30 days''"
          "''uploads/policy.pdf''" "''%PDF''" "\<lparr>pdfText = Some ''Notice: 30 days'', numpages = 1\<rparr>"]
        extraction_never_blank[of blankWorld "''https://example.com/policy.pdf''" "[]"
          "''uploads/policy.pdf''" "''%PDF''" "\<lparr>pdfText = Some [CHR 0x20, CHR 0x0A], numpages = 1\<rparr>"]
  by (simp add: textWorld_def blankWorld_def blankText_def trim_ex trim_blank
        extractTextFromUrl_def extractTextFromUrl_try_def extractTextFromFile_def extractTextFromFile_try_def)

section \<open>Properties of the RAG service\<close>

lemma processDocumentAndQuestions_tolerant:
  "\<exists>answers. fst (processDocumentAndQuestions ext url questions log) = Inr answers
      \<and> length answers = length questions"
  by (simp add: processDocumentAndQuestions_def Let_def processQuestions_eq length_answersFrom)

lemma processDocumentAndQuestions_empty_context:
  "extractTextFromUrl ext url = Inl e \<Longrightarrow>
   processDocumentAndQuestions ext url questions log
     = (Inr (fst (processQuestions (gemini ext) questions [] log)),
        snd (processQuestions (gemini ext) questions [] log))"
  by (simp add: processDocumentAndQuestions_def Let_def)

lemma processFileAndQuestions_fails:
  "extractTextFromFile ext path = Inl e \<Longrightarrow>
   processFileAndQuestions ext path questions log
     = (Inl (documentProcessingError ''Failed to process file and questions''), log)"
  by (simp add: processFileAndQuestions_def)

text \<open>
  C3. At a document without extractable text the two variants part: the file
  variant throws the \<open>DocumentProcessingError\<close> and returns no answers, while
  the URL variant, here at a dead URL, goes on with the empty context and
  returns one answer per question.
\<close>

theorem processFileAndQuestions_aborts_on_extraction_failure:
  "extractTextFromFile blankWorld ''uploads/policy.pdf''
     = Inl (newError ''PDF file processing failed: PDF contains no extractable text'')
   \<and> processFileAndQuestions blankWorld ''uploads/policy.pdf'' [''What is X?'', ''What is Y?''] []
     = (Inl (documentProcessingError ''Failed to process file and questions''), [])
   \<and> extractTextFromUrl deadWorld ''https://example.com/policy.pdf''
     = Inl (newError ''PDF document not found at the provided URL'')
   \<and> fst (processDocumentAndQuestions deadWorld ''https://example.com/policy.pdf''
            [''What is X?'', ''What is Y?''] [])
     = Inr [''Re: Answer the following question: What is X?'',
            ''Sorry, I couldn't process this question: What is Y?'']"
  by (simp add: processFileAndQuestions_def processDocumentAndQuestions_def Let_def
        extractTextFromFile_def extractTextFromFile_try_def extractTextFromUrl_def extractTextFromUrl_try_def
        deadWorld_def blankWorld_def trim_blank newError_def processQuestions_eq slot_def
        generateAnswer_result secondCallFails_def prompt_def fallbackAnswer_def)

section \<open>Properties of the request validator\<close>

lemma questionItem_Nil: "(questionItem path q = []) = isQuestion q"
  by (cases q) auto

lemma items_Nil:
  "length is = length qs \<Longrightarrow>
   (concat (map (\<lambda>(i, q). questionItem (f i) q) (zip is qs)) = []) = list_all isQuestion qs"
proof (induction qs arbitrary: "is")
  case Nil then show ?case by simp
next
  case (Cons q qs)
  then obtain i js where "is = i # js" "length js = length qs" by (cases "is") auto
  with Cons.IH[of js] show ?case by (simp add: questionItem_Nil)
qed

lemma documentsKey_Nil: "(documentsKey uri v = []) = acceptedDocuments uri v"
  by (induction uri v rule: documentsKey.induct) auto

lemma questionsKey_Nil: "(questionsKey v = []) = acceptedQuestions v"
proof (induction v rule: questionsKey.induct)
  case 1 then show ?case by simp
next
  case (2 qs)
  have items:
    "(concat (map (\<lambda>(i, q). questionItem [Key ''questions'', Index i] q) (zip [0..<length qs] qs)) = [])
       = list_all isQuestion qs"
    by (rule items_Nil) simp
  have ex: "list_all isQuestion qs \<Longrightarrow> \<not> length qs < 1 \<Longrightarrow> list_ex isQuestion qs"
    by (cases qs) auto
  have "(questionsKey (Some (JArr qs)) = [])
          = (list_all isQuestion qs \<and> list_ex isQuestion qs \<and> \<not> length qs < 1 \<and> \<not> length qs > 10)"
    by (simp only: questionsKey.simps append_is_Nil_conv items questionItem_Nil) simp
  also have "\<dots> = acceptedQuestions (Some (JArr qs))"
    using ex by (cases qs) auto
  finally show ?case .
qed simp_all

lemma unknown_Nil:
  "(map (\<lambda>(k, v). ([Key k], ObjectUnknown)) (filter (\<lambda>(k, v). k \<noteq> ''documents'' \<and> k \<noteq> ''questions'') kvs) = [])
   = list_all (\<lambda>(k, v). k = ''documents'' \<or> k = ''questions'') kvs"
  by (induction kvs) (auto)

lemma runRequestSchema_Nil: "(runRequestSchema uri body = []) = acceptedBody uri body"
proof (cases body)
  case (JObj kvs)
  then show ?thesis
    by (simp only: runRequestSchema.simps acceptedBody.simps append_is_Nil_conv
          documentsKey_Nil questionsKey_Nil unknown_Nil) blast
qed simp_all

text \<open>
  C4, as amended. \<open>validateRequest\<close> returns \<open>isValid = true\<close> exactly when the body
  is an object with no key besides \<open>documents\<close> and \<open>questions\<close>, \<open>documents\<close> is a
  non-empty string passing the http/https URI rule, and \<open>questions\<close> is an array
  of 1 to 10 strings each of length (as given, not trimmed) 5 to 1000; every
  other body yields \<open>isValid = false\<close> with at least one violation.
\<close>

theorem validateRequest_accepts:
  "isValid (validateRequest uri body) = acceptedBody uri body
   \<and> (\<not> isValid (validateRequest uri body) \<longrightarrow>
        (\<exists>d ds. errors (validateRequest uri body) = Some (d # ds)))"
  using runRequestSchema_Nil[of uri body]
  by (cases "runRequestSchema uri body") (auto simp add: validateRequest_def Let_def)


theorem validateRequest_accepts_witness:
  "\<not> isValid (validateRequest httpScheme (JObj [(''documents'', JStr ''ftp://example.com/a.pdf''), (''questions'', JArr [])]))
   \<and> errors (validateRequest httpScheme (JObj [(''documents'', JStr ''ftp://example.com/a.pdf''), (''questions'', JArr [])]))
       = Some [([Key ''documents''], StringUri), ([Key ''questions''], ArrayIncludesRequiredUnknowns),
               ([Key ''questions''], ArrayMin)]
   \<and> isValid (validateRequest httpScheme
         (JObj [(''documents'', JStr ''https://example.com/policy.pdf''), (''questions'', JArr [JStr ''What is X?''])]))"
  using validateRequest_accepts[of httpScheme "JObj [(''documents'', JStr ''ftp://example.com/a.pdf''), (''questions'', JArr [])]"]
        validateRequest_accepts[of httpScheme
          "JObj [(''documents'', JStr ''https://example.com/policy.pdf''), (''questions'', JArr [JStr ''What is X?''])]"]
  by (simp add: validateRequest_def httpScheme_def startsWith_def)

lemma trim_padded: "trim ''  hi '' = ''hi''"
  by (simp add: trim_def isWhiteSpace_def)

lemma trim_plain: "trim ''What is X?'' = ''What is X?''"
  by (simp add: trim_def isWhiteSpace_def)

text \<open>
  C4 as stated fails in both directions: a question of five characters that
  trims to two is accepted, and a body meeting both rules of the claim but
  carrying a third key is refused.
\<close>

theorem validateRequest_spec_counterexample:
  "isValid (validateRequest httpScheme
      (JObj [(''documents'', JStr ''https://example.com/policy.pdf''), (''questions'', JArr [JStr ''  hi ''])]))
   \<and> \<not> specValid httpScheme
      (JObj [(''documents'', JStr ''https://example.com/policy.pdf''), (''questions'', JArr [JStr ''  hi ''])])
   \<and> \<not> isValid (validateRequest httpScheme
      (JObj [(''documents'', JStr ''https://example.com/policy.pdf''), (''questions'', JArr [JStr ''What is X?'']),
             (''mode'', JStr ''fast'')]))
   \<and> specValid httpScheme
      (JObj [(''documents'', JStr ''https://example.com/policy.pdf''), (''questions'', JArr [JStr ''What is X?'']),
             (''mode'', JStr ''fast'')])"
  by (simp add: validateRequest_def httpScheme_def startsWith_def trim_padded trim_plain)

section \<open>Properties of the upload route\<close>

text \<open>
  C5. The upload handler refuses an absent, unparsable, non-array or empty
  \<open>questions\<close> field only. A too short question, an element that is not a string
  and an array of eleven questions, each refused by the rule of
  \<open>uploadRequestSchema\<close>, are passed on to the pipeline.
\<close>

theorem uploadHandler_skips_question_rules:
  "uploadQuestions (Some (JArr [JStr ''Hi''])) = Inl TooShort
   \<and> uploadHandler (Some ''uploads/1-a.pdf'') (Some (JArr [JStr ''Hi''])) = Process ''uploads/1-a.pdf'' [JStr ''Hi'']
   \<and> uploadQuestions (Some (JArr [JNum 42])) = Inl InvalidType
   \<and> uploadHandler (Some ''uploads/1-a.pdf'') (Some (JArr [JNum 42])) = Process ''uploads/1-a.pdf'' [JNum 42]
   \<and> uploadQuestions (Some (JArr (replicate 11 (JStr ''What is X?'')))) = Inl TooMany
   \<and> uploadHandler (Some ''uploads/1-a.pdf'') (Some (JArr (replicate 11 (JStr ''What is X?''))))
       = Process ''uploads/1-a.pdf'' (replicate 11 (JStr ''What is X?''))"
  by simp

lemma uploadHandler_nonempty:
  "qs \<noteq> [] \<Longrightarrow> uploadHandler (Some p) (Some (JArr qs)) = Process p qs"
  by simp

section \<open>Properties of sanitizeString\<close>

lemma sanitize_filter_null: "CHR 0x00 \<notin> set (filter (\<lambda>c. c \<noteq> CHR 0x00) s)"
  by simp

text \<open>
  C9, as amended. \<open>sanitizeString\<close> always returns a string, the empty one when the
  input is not a string; the result has no null character, and its length is at
  most \<open>maxLength\<close> when that is positive, at most 1000 when \<open>maxLength\<close> is absent or
  0, and 0 when \<open>maxLength\<close> is negative.
\<close>

theorem sanitizeString_bounded:
  "CHR 0x00 \<notin> set (sanitizeString input options)
   \<and> (case input of JStr s \<Rightarrow> True | _ \<Rightarrow> sanitizeString input options = [])
   \<and> (case maxLength options of
         None \<Rightarrow> length (sanitizeString input options) \<le> 1000
       | Some m \<Rightarrow>
           if m = 0 then length (sanitizeString input options) \<le> 1000
           else int (length (sanitizeString input options)) \<le> max 0 m)"
proof (cases input)
  case (JStr s)
  define a where "a = filter (\<lambda>c. c \<noteq> CHR 0x00) (trim s)"
  define m where "m = (case maxLength options of None \<Rightarrow> 1000 | Some m \<Rightarrow> if m = 0 then 1000 else m)"
  define b where "b = (if int (length a) > m then substringTo m a else a)"
  define r where "r = (if \<not> allowControlChars options then filter (\<lambda>c. \<not> isControlChar c) b else b)"
  have res: "sanitizeString input options = r"
    by (simp add: JStr sanitizeString_def Let_def a_def m_def b_def r_def)
  have a0: "CHR 0x00 \<notin> set a" by (simp add: a_def)
  have "set b \<subseteq> set a" by (auto simp add: b_def substringTo_def dest: in_set_takeD)
  moreover have "set r \<subseteq> set b" by (auto simp add: r_def)
  ultimately have r0: "CHR 0x00 \<notin> set r" using a0 by blast
  have "int (length b) \<le> max 0 m" by (auto simp add: b_def substringTo_def)
  moreover have "length r \<le> length b" by (simp add: r_def)
  ultimately have len: "int (length r) \<le> max 0 m" by linarith
  show ?thesis
    unfolding res using r0 len by (auto simp add: JStr m_def split: option.split)
qed (simp_all add: sanitizeString_def split: option.split)

text \<open>
  C9 as stated fails for \<open>maxLength: 0\<close>, which \<open>options.maxLength || 1000\<close> takes
  for 1000: the five characters of the input come back.
\<close>

theorem sanitizeString_maxLength_counterexample:
  "\<not> int (length (sanitizeString (JStr ''hello'') \<lparr>maxLength = Some 0, allowControlChars = False\<rparr>)) \<le> 0"
  by (simp add: sanitizeString_def Let_def trim_def isWhiteSpace_def isControlChar_def)
end
